theory Spec2Isabelle
  imports Main
begin

section \<open>FilterControl: applied filters and their labels\<close>

text \<open>
  A shallow embedding of
  \<^verbatim>\<open>src/components/ResourceList/components/FilterControl/FilterControl.tsx\<close>:
  the two handlers that add and remove applied filters, the label of an applied
  filter, and the two module-level helpers \<^verbatim>\<open>idFromFilter\<close> and
  \<^verbatim>\<open>formatDateForLabelDisplay\<close>. Rendering is left out.

  JavaScript strings are modelled as \<^typ>\<open>string\<close>; an optional property
  (\<^verbatim>\<open>label?: string\<close>) is a \<^typ>\<open>string option\<close>, \<^term>\<open>None\<close> being
  \<^verbatim>\<open>undefined\<close>.
\<close>

subsection \<open>Data\<close>

text \<open>
  Modelled from the spec: the declarations of \<^verbatim>\<open>./types\<close> (AppliedFilter, Filter,
  FilterType and the option of a Select filter) are imported by the component and are
  not among the sources. The field \<^verbatim>\<open>value\<close> of an applied filter is written
  \<open>appliedValue\<close> (and its siblings accordingly), the field \<^verbatim>\<open>type\<close> of a filter
  \<open>filterType\<close>.
\<close>

record AppliedFilter =
  appliedKey :: string
  appliedValue :: string
  appliedLabel :: "string option"

datatype FilterType = Select | DateSelector | Other

datatype FilterOption = StringOption string | ObjectOption (optionValue: string) (optionLabel: string)

record Filter =
  key :: string
  label :: string
  operatorText :: "string option"
  filterType :: FilterType
  options :: "FilterOption list"
  minKey :: "string option"
  maxKey :: "string option"

text \<open>
  The translation capability \<^verbatim>\<open>polaris.intl\<close> is injected through the props.
  \<^verbatim>\<open>translate\<close> takes a key and an optional object of replacements, here an
  association list; \<^term>\<open>None\<close> is the call with one argument.
\<close>

record Intl =
  translate :: "string \<Rightarrow> (string \<times> string) list option \<Rightarrow> string"
  translationKeyExists :: "string \<Rightarrow> bool"

text \<open>
  The host's \<^verbatim>\<open>Date\<close>: \<open>dateGetTime s\<close> is \<^verbatim>\<open>new Date(s).getTime()\<close>, a number
  of milliseconds or \<^term>\<open>None\<close> for \<^verbatim>\<open>NaN\<close> (an invalid date), and
  \<open>dateToLocaleDateString s\<close> is \<^verbatim>\<open>new Date(s).toLocaleDateString()\<close>.
\<close>

record DateHost =
  dateGetTime :: "string \<Rightarrow> int option"
  dateToLocaleDateString :: "string \<Rightarrow> string"

text \<open>
  The props the logic reads. \<open>onFiltersChange\<close> is the optional callback; its result
  type \<open>'r\<close> is whatever the host makes of the new collection.
\<close>

record 'r Props =
  appliedFilters :: "AppliedFilter list option"
  filters :: "Filter list option"
  onFiltersChange :: "(AppliedFilter list \<Rightarrow> 'r) option"
  intl :: Intl

subsection \<open>JavaScript primitives the component uses\<close>

text \<open>A destructuring default: \<^verbatim>\<open>const {appliedFilters = []} = this.props\<close>.\<close>

definition orEmpty :: "'a list option \<Rightarrow> 'a list" where
  "orEmpty xs = (case xs of None \<Rightarrow> [] | Some ys \<Rightarrow> ys)"

text \<open>Truthiness of an optional string: \<^verbatim>\<open>undefined\<close> and \<^verbatim>\<open>''\<close> are falsy.\<close>

fun truthy :: "string option \<Rightarrow> bool" where
  "truthy None = False"
| "truthy (Some s) = (s \<noteq> [])"

text \<open>\<^verbatim>\<open>Array.prototype.findIndex\<close>: the index of the first hit, or \<open>-1\<close>.\<close>

fun findIndexFrom :: "('a \<Rightarrow> bool) \<Rightarrow> 'a list \<Rightarrow> int \<Rightarrow> int" where
  "findIndexFrom P [] i = - 1"
| "findIndexFrom P (x # xs) i = (if P x then i else findIndexFrom P xs (i + 1))"

definition findIndex :: "('a \<Rightarrow> bool) \<Rightarrow> 'a list \<Rightarrow> int" where
  "findIndex P xs = findIndexFrom P xs 0"

text \<open>
  \<^verbatim>\<open>Array.prototype.slice(start, end)\<close>: a negative bound counts from the end, and
  both bounds are clamped to the array.
\<close>

definition slice :: "'a list \<Rightarrow> int \<Rightarrow> int \<Rightarrow> 'a list" where
  "slice xs start end' =
     (let len = int (length xs);
          k = (if start < 0 then max (len + start) 0 else min start len);
          final = (if end' < 0 then max (len + end') 0 else min end' len)
      in take (nat (final - k)) (drop (nat k) xs))"

text \<open>
  \<^verbatim>\<open>Array.prototype.join(separator)\<close> on an array of strings that may hold
  \<^verbatim>\<open>undefined\<close>: an undefined element is rendered as the empty string.
\<close>

fun elementString :: "string option \<Rightarrow> string" where
  "elementString None = []"
| "elementString (Some s) = s"

fun join :: "string option list \<Rightarrow> string \<Rightarrow> string" where
  "join [] sep = []"
| "join [x] sep = elementString x"
| "join (x # y # ys) sep = elementString x @ sep @ join (y # ys) sep"

text \<open>\<^verbatim>\<open>date.replace(/-/g, '/')\<close>: every dash becomes a slash.\<close>

definition replaceDashes :: "string \<Rightarrow> string" where
  "replaceDashes s = map (\<lambda>c. if c = CHR ''-'' then CHR ''/'' else c) s"

subsection \<open>The module-level helpers\<close>

definition idFromFilter :: "AppliedFilter \<Rightarrow> string" where
  "idFromFilter appliedFilter = appliedKey appliedFilter @ ''-'' @ appliedValue appliedFilter"

definition formatDateForLabelDisplay :: "DateHost \<Rightarrow> string \<Rightarrow> string" where
  "formatDateForLabelDisplay host date =
     (if dateGetTime host date = None then date
      else dateToLocaleDateString host (replaceDashes date))"

subsection \<open>The handlers\<close>

text \<open>
  A handler returns nothing; what it does is call \<open>onFiltersChange\<close> or not. The model
  returns \<^term>\<open>None\<close> when the callback is not called and the callback's result when
  it is.
\<close>

definition handleAddFilter :: "'r Props \<Rightarrow> AppliedFilter \<Rightarrow> 'r option" where
  "handleAddFilter props newFilter =
     (case onFiltersChange props of
        None \<Rightarrow> None
      | Some callback \<Rightarrow>
          (let current = orEmpty (appliedFilters props);
               foundFilter = find (\<lambda>appliedFilter.
                 idFromFilter appliedFilter = idFromFilter newFilter) current
           in case foundFilter of
                Some _ \<Rightarrow> None
              | None \<Rightarrow> Some (callback (current @ [newFilter]))))"

definition handleRemoveFilter :: "'r Props \<Rightarrow> string \<Rightarrow> 'r option" where
  "handleRemoveFilter props filterId =
     (case onFiltersChange props of
        None \<Rightarrow> None
      | Some callback \<Rightarrow>
          (let current = orEmpty (appliedFilters props);
               foundIndex = findIndex (\<lambda>appliedFilter.
                 idFromFilter appliedFilter = filterId) current;
               newAppliedFilters =
                 (if foundIndex \<ge> 0
                  then slice current 0 foundIndex
                     @ slice current (foundIndex + 1) (int (length current))
                  else current)
           in Some (callback newAppliedFilters)))"

subsection \<open>The label of an applied filter\<close>

text \<open>
  The predicate of \<^verbatim>\<open>filters.find\<close> in \<^verbatim>\<open>getFilterLabel\<close>. The source tests
  \<^verbatim>\<open>minKey || maxKey\<close> for truthiness; \<^verbatim>\<open>minKey === key\<close> holds when the property
  is defined and is that string.
\<close>

definition filterMatches :: "string \<Rightarrow> Filter \<Rightarrow> bool" where
  "filterMatches k flt =
     (if truthy (minKey flt) \<or> truthy (maxKey flt)
      then key flt = k \<or> minKey flt = Some k \<or> maxKey flt = Some k
      else key flt = k)"

text \<open>
  The lookup of the governing definition, \<^verbatim>\<open>filters.find(...)\<close> in
  \<^verbatim>\<open>getFilterLabel\<close>; the source does not name it, the specification calls it
  findDefinition.
\<close>

definition findDefinition :: "Filter list \<Rightarrow> string \<Rightarrow> Filter option" where
  "findDefinition catalog k = find (filterMatches k) catalog"

definition optionMatches :: "string \<Rightarrow> FilterOption \<Rightarrow> bool" where
  "optionMatches v opt =
     (case opt of StringOption s \<Rightarrow> s = v | ObjectOption ov ol \<Rightarrow> ov = v)"

definition findFilterLabelByType :: "DateHost \<Rightarrow> 'r Props \<Rightarrow> Filter \<Rightarrow> AppliedFilter \<Rightarrow> string" where
  "findFilterLabelByType host props flt appliedFilter =
     (let appliedFilterValue = appliedValue appliedFilter;
          selected =
            (if filterType flt = Select
             then (case find (optionMatches appliedFilterValue) (options flt) of
                     None \<Rightarrow> None
                   | Some (StringOption s) \<Rightarrow> (if s \<noteq> [] then Some s else None)
                   | Some (ObjectOption ov ol) \<Rightarrow> Some ol)
             else None)
      in case selected of
           Some found \<Rightarrow> found
         | None \<Rightarrow>
             (if filterType flt = DateSelector
              then (if key flt = appliedKey appliedFilter
                    then (let filterLabelKey =
                                ''Polaris.ResourceList.DateSelector.FilterLabelForValue.''
                                @ appliedValue appliedFilter
                          in if translationKeyExists (intl props) filterLabelKey
                             then translate (intl props) filterLabelKey None
                             else appliedValue appliedFilter)
                    else if Some (appliedKey appliedFilter) = maxKey flt
                    then translate (intl props)
                           ''Polaris.ResourceList.DateSelector.FilterLabelForValue.on_or_before''
                           (Some [(''date'', formatDateForLabelDisplay host (appliedValue appliedFilter))])
                    else if Some (appliedKey appliedFilter) = minKey flt
                    then translate (intl props)
                           ''Polaris.ResourceList.DateSelector.FilterLabelForValue.on_or_after''
                           (Some [(''date'', formatDateForLabelDisplay host (appliedValue appliedFilter))])
                    else appliedFilterValue)
              else appliedFilterValue))"

definition getFilterLabel :: "DateHost \<Rightarrow> 'r Props \<Rightarrow> AppliedFilter \<Rightarrow> string" where
  "getFilterLabel host props appliedFilter =
     (if truthy (appliedLabel appliedFilter)
      then elementString (appliedLabel appliedFilter)
      else (case findDefinition (orEmpty (filters props)) (appliedKey appliedFilter) of
              None \<Rightarrow> appliedValue appliedFilter
            | Some flt \<Rightarrow>
                (let filterLabelByType = findFilterLabelByType host props flt appliedFilter;
                     filterLabels = [Some (label flt), operatorText flt, Some filterLabelByType]
                 in join filterLabels '' '')))"

subsection \<open>The operations as the host sees them\<close>

text \<open>
  The component is controlled: the host owns the collection, passes it in as
  \<open>appliedFilters\<close> and replaces it by what \<open>onFiltersChange\<close> delivers. When the
  handler does not call back, the host keeps what it has. The handlers read neither
  the catalog nor the translations, so the host's props leave the first out and
  carry translations that echo the key.
\<close>

definition hostProps :: "AppliedFilter list \<Rightarrow> (AppliedFilter list) Props" where
  "hostProps current =
     \<lparr>appliedFilters = Some current, filters = None,
      onFiltersChange = Some (\<lambda>next. next),
      intl = \<lparr>translate = (\<lambda>k params. k), translationKeyExists = (\<lambda>k. False)\<rparr>\<rparr>"

definition add :: "AppliedFilter list \<Rightarrow> AppliedFilter \<Rightarrow> AppliedFilter list" where
  "add current newFilter =
     (case handleAddFilter (hostProps current) newFilter of
        None \<Rightarrow> current
      | Some next \<Rightarrow> next)"

definition remove :: "AppliedFilter list \<Rightarrow> string \<Rightarrow> AppliedFilter list" where
  "remove current filterId =
     (case handleRemoveFilter (hostProps current) filterId of
        None \<Rightarrow> current
      | Some next \<Rightarrow> next)"

subsection \<open>The lookup in the specification's words\<close>

text \<open>
  The specification's findDefinition, for comparison with \<open>findDefinition\<close> above: a
  definition whose \<open>minKey\<close> or \<open>maxKey\<close> is present matches on any of its three
  keys, any other definition on its \<open>key\<close> alone. Present is read as defined.
\<close>

definition specFilterMatches :: "string \<Rightarrow> Filter \<Rightarrow> bool" where
  "specFilterMatches k flt =
     (if minKey flt \<noteq> None \<or> maxKey flt \<noteq> None
      then key flt = k \<or> minKey flt = Some k \<or> maxKey flt = Some k
      else key flt = k)"

definition specFindDefinition :: "Filter list \<Rightarrow> string \<Rightarrow> Filter option" where
  "specFindDefinition catalog k = find (specFilterMatches k) catalog"

section \<open>Properties\<close>

subsection \<open>The array primitives\<close>

lemma findIndexFrom_eq:
  "findIndexFrom P xs i =
     (if \<exists>x\<in>set xs. P x then i + int (length (takeWhile (\<lambda>x. \<not> P x) xs)) else - 1)"
  by (induction xs arbitrary: i) auto

lemma findIndex_hit:
  "\<exists>x\<in>set xs. P x \<Longrightarrow> findIndex P xs = int (length (takeWhile (\<lambda>x. \<not> P x) xs))"
  by (simp add: findIndex_def findIndexFrom_eq)

lemma findIndex_miss: "\<forall>x\<in>set xs. \<not> P x \<Longrightarrow> findIndex P xs = - 1"
  by (simp add: findIndex_def findIndexFrom_eq)

lemma slice_from_start: "slice xs 0 (int n) = take n xs"
  by (simp add: slice_def Let_def min_def)

lemma slice_to_end: "slice xs (int n) (int (length xs)) = drop n xs"
  by (simp add: slice_def Let_def min_def)

lemma slice_around:
  "slice xs 0 (int n) @ slice xs (int n + 1) (int (length xs)) = take n xs @ drop (Suc n) xs"
proof -
  have "int n + 1 = int (Suc n)" by simp
  then show ?thesis by (simp only: slice_from_start slice_to_end)
qed

lemma takeWhile_prefix:
  "\<forall>e\<in>set pre. \<not> P e \<Longrightarrow> P x \<Longrightarrow> takeWhile (\<lambda>e. \<not> P e) (pre @ x # post) = pre"
  by (induction pre) auto

lemma find_Some_split:
  "find P xs = Some x \<longleftrightarrow> (\<exists>pre post. xs = pre @ x # post \<and> P x \<and> (\<forall>e\<in>set pre. \<not> P e))"
proof (induction xs)
  case Nil
  then show ?case by simp
next
  case (Cons a xs)
  show ?case
  proof (cases "P a")
    case True
    have "(\<exists>pre post. a # xs = pre @ x # post \<and> P x \<and> (\<forall>e\<in>set pre. \<not> P e)) \<longleftrightarrow> a = x"
    proof
      assume "\<exists>pre post. a # xs = pre @ x # post \<and> P x \<and> (\<forall>e\<in>set pre. \<not> P e)"
      then obtain pre post where eq: "a # xs = pre @ x # post" and pre: "\<forall>e\<in>set pre. \<not> P e"
        by blast
      show "a = x"
      proof (cases pre)
        case Nil
        with eq show ?thesis by simp
      next
        case (Cons b pre')
        with eq have "a \<in> set pre" by simp
        with pre True show ?thesis by blast
      qed
    next
      assume "a = x"
      with True have "a # xs = [] @ x # xs \<and> P x \<and> (\<forall>e\<in>set []. \<not> P e)" by simp
      then show "\<exists>pre post. a # xs = pre @ x # post \<and> P x \<and> (\<forall>e\<in>set pre. \<not> P e)"
        by blast
    qed
    with True show ?thesis by simp
  next
    case False
    have "(\<exists>pre post. a # xs = pre @ x # post \<and> P x \<and> (\<forall>e\<in>set pre. \<not> P e))
          \<longleftrightarrow> (\<exists>pre post. xs = pre @ x # post \<and> P x \<and> (\<forall>e\<in>set pre. \<not> P e))"
    proof
      assume "\<exists>pre post. a # xs = pre @ x # post \<and> P x \<and> (\<forall>e\<in>set pre. \<not> P e)"
      then obtain pre post where eq: "a # xs = pre @ x # post" and x: "P x"
        and pre: "\<forall>e\<in>set pre. \<not> P e"
        by blast
      show "\<exists>pre post. xs = pre @ x # post \<and> P x \<and> (\<forall>e\<in>set pre. \<not> P e)"
      proof (cases pre)
        case Nil
        with eq x False show ?thesis by simp
      next
        case (Cons b pre')
        with eq pre x have "xs = pre' @ x # post \<and> P x \<and> (\<forall>e\<in>set pre'. \<not> P e)" by simp
        then show ?thesis by blast
      qed
    next
      assume "\<exists>pre post. xs = pre @ x # post \<and> P x \<and> (\<forall>e\<in>set pre. \<not> P e)"
      then obtain pre post where "xs = pre @ x # post" "P x" "\<forall>e\<in>set pre. \<not> P e"
        by blast
      with False have "a # xs = (a # pre) @ x # post \<and> P x \<and> (\<forall>e\<in>set (a # pre). \<not> P e)"
        by simp
      then show "\<exists>pre post. a # xs = pre @ x # post \<and> P x \<and> (\<forall>e\<in>set pre. \<not> P e)"
        by blast
    qed
    with False Cons.IH show ?thesis by simp
  qed
qed

lemma join3:
  "join [a, b, c] sep = elementString a @ sep @ elementString b @ sep @ elementString c"
  by simp

subsection \<open>What the handlers pass to the callback\<close>

lemma handleRemoveFilter_hit:
  assumes cb: "onFiltersChange props = Some callback"
    and cur: "orEmpty (appliedFilters props) = pre @ x # post"
    and pre: "\<forall>e\<in>set pre. idFromFilter e \<noteq> filterId"
    and x: "idFromFilter x = filterId"
  shows "handleRemoveFilter props filterId = Some (callback (pre @ post))"
proof -
  let ?P = "\<lambda>e. idFromFilter e = filterId"
  let ?xs = "pre @ x # post"
  have "\<exists>e\<in>set ?xs. ?P e" using x by auto
  then have "findIndex ?P ?xs = int (length (takeWhile (\<lambda>e. \<not> ?P e) ?xs))"
    by (rule findIndex_hit)
  also have "takeWhile (\<lambda>e. \<not> ?P e) ?xs = pre"
    using pre x by (intro takeWhile_prefix) auto
  finally have idx: "findIndex ?P ?xs = int (length pre)" .
  have "slice ?xs 0 (int (length pre)) @ slice ?xs (int (length pre) + 1) (int (length ?xs))
        = pre @ post"
    by (simp only: slice_around) simp
  then show ?thesis
    by (simp add: handleRemoveFilter_def cb cur idx Let_def)
qed

lemma handleRemoveFilter_miss:
  assumes cb: "onFiltersChange props = Some callback"
    and miss: "\<forall>e\<in>set (orEmpty (appliedFilters props)). idFromFilter e \<noteq> filterId"
  shows "handleRemoveFilter props filterId = Some (callback (orEmpty (appliedFilters props)))"
proof -
  have "findIndex (\<lambda>e. idFromFilter e = filterId) (orEmpty (appliedFilters props)) = - 1"
    using miss by (intro findIndex_miss) auto
  then show ?thesis
    by (simp add: handleRemoveFilter_def cb Let_def)
qed

lemma handleAddFilter_hit:
  assumes "\<exists>e\<in>set (orEmpty (appliedFilters props)). idFromFilter e = idFromFilter newFilter"
  shows "handleAddFilter props newFilter = None"
proof -
  have "find (\<lambda>e. idFromFilter e = idFromFilter newFilter) (orEmpty (appliedFilters props)) \<noteq> None"
    using assms by (auto simp: find_None_iff)
  then show ?thesis
    by (auto simp: handleAddFilter_def Let_def split: option.splits)
qed

lemma handleAddFilter_miss:
  assumes cb: "onFiltersChange props = Some callback"
    and miss: "\<forall>e\<in>set (orEmpty (appliedFilters props)). idFromFilter e \<noteq> idFromFilter newFilter"
  shows "handleAddFilter props newFilter =
           Some (callback (orEmpty (appliedFilters props) @ [newFilter]))"
proof -
  have "find (\<lambda>e. idFromFilter e = idFromFilter newFilter) (orEmpty (appliedFilters props)) = None"
    using miss by (auto simp: find_None_iff)
  then show ?thesis
    by (simp add: handleAddFilter_def cb Let_def)
qed

lemma first_match_split:
  "\<exists>e\<in>set xs. P e \<Longrightarrow> \<exists>pre x post. xs = pre @ x # post \<and> (\<forall>e\<in>set pre. \<not> P e) \<and> P x"
  by (metis split_list_first_prop)

lemma hostProps_simps:
  "onFiltersChange (hostProps current) = Some (\<lambda>next. next)"
  "orEmpty (appliedFilters (hostProps current)) = current"
  by (simp_all add: hostProps_def orEmpty_def)

lemma add_hit: "\<exists>e\<in>set current. idFromFilter e = idFromFilter f \<Longrightarrow> add current f = current"
  by (simp add: add_def handleAddFilter_hit hostProps_simps)

lemma add_miss: "\<forall>e\<in>set current. idFromFilter e \<noteq> idFromFilter f \<Longrightarrow> add current f = current @ [f]"
  using handleAddFilter_miss [of "hostProps current" "\<lambda>next. next" f]
  by (simp add: add_def hostProps_simps)

lemma remove_hit:
  "\<forall>e\<in>set pre. idFromFilter e \<noteq> filterId \<Longrightarrow> idFromFilter x = filterId \<Longrightarrow>
   remove (pre @ x # post) filterId = pre @ post"
  using handleRemoveFilter_hit [of "hostProps (pre @ x # post)" "\<lambda>next. next" pre x post filterId]
  by (simp add: remove_def hostProps_simps)

lemma remove_miss:
  "\<forall>e\<in>set current. idFromFilter e \<noteq> filterId \<Longrightarrow> remove current filterId = current"
  using handleRemoveFilter_miss [of "hostProps current" "\<lambda>next. next" filterId]
  by (simp add: remove_def hostProps_simps)

subsection \<open>Adding and removing applied filters\<close>

text \<open>
  C1. Adding a filter whose composite id (key, a dash, value) some entry of the
  collection already has changes nothing: the handler does not call back, the host
  keeps its collection and the new filter is dropped. Otherwise the callback receives
  the collection with the new filter appended as its last element, the entries before
  it as they were.
\<close>

theorem add_first_wins:
  assumes cb: "onFiltersChange props = Some callback"
    and cur: "orEmpty (appliedFilters props) = C"
  shows "((\<exists>e\<in>set C. idFromFilter e = idFromFilter f) \<longrightarrow>
            handleAddFilter props f = None \<and> add C f = C)
       \<and> ((\<forall>e\<in>set C. idFromFilter e \<noteq> idFromFilter f) \<longrightarrow>
            handleAddFilter props f = Some (callback (C @ [f])) \<and> add C f = C @ [f])"
proof (intro conjI impI)
  assume hit: "\<exists>e\<in>set C. idFromFilter e = idFromFilter f"
  show "handleAddFilter props f = None"
    using hit cur by (intro handleAddFilter_hit) simp
  show "add C f = C"
    using hit by (rule add_hit)
next
  assume miss: "\<forall>e\<in>set C. idFromFilter e \<noteq> idFromFilter f"
  show "handleAddFilter props f = Some (callback (C @ [f]))"
    using handleAddFilter_miss [OF cb, of f] miss cur by simp
  show "add C f = C @ [f]"
    using miss by (rule add_miss)
qed

theorem add_first_wins_witness:
  "add [\<lparr>appliedKey = ''status'', appliedValue = ''open'', appliedLabel = None\<rparr>,
        \<lparr>appliedKey = ''tag'', appliedValue = ''new'', appliedLabel = None\<rparr>]
       \<lparr>appliedKey = ''status'', appliedValue = ''open'', appliedLabel = Some ''Open orders''\<rparr>
   = [\<lparr>appliedKey = ''status'', appliedValue = ''open'', appliedLabel = None\<rparr>,
      \<lparr>appliedKey = ''tag'', appliedValue = ''new'', appliedLabel = None\<rparr>]
   \<and> add [\<lparr>appliedKey = ''status'', appliedValue = ''open'', appliedLabel = None\<rparr>,
          \<lparr>appliedKey = ''tag'', appliedValue = ''new'', appliedLabel = None\<rparr>]
         \<lparr>appliedKey = ''status'', appliedValue = ''closed'', appliedLabel = None\<rparr>
   = [\<lparr>appliedKey = ''status'', appliedValue = ''open'', appliedLabel = None\<rparr>,
      \<lparr>appliedKey = ''tag'', appliedValue = ''new'', appliedLabel = None\<rparr>,
      \<lparr>appliedKey = ''status'', appliedValue = ''closed'', appliedLabel = None\<rparr>]"
  using
    add_first_wins [of
      "hostProps [\<lparr>appliedKey = ''status'', appliedValue = ''open'', appliedLabel = None\<rparr>,
                  \<lparr>appliedKey = ''tag'', appliedValue = ''new'', appliedLabel = None\<rparr>]"
      "\<lambda>next. next"
      "[\<lparr>appliedKey = ''status'', appliedValue = ''open'', appliedLabel = None\<rparr>,
        \<lparr>appliedKey = ''tag'', appliedValue = ''new'', appliedLabel = None\<rparr>]"
      "\<lparr>appliedKey = ''status'', appliedValue = ''open'', appliedLabel = Some ''Open orders''\<rparr>"]
    add_first_wins [of
      "hostProps [\<lparr>appliedKey = ''status'', appliedValue = ''open'', appliedLabel = None\<rparr>,
                  \<lparr>appliedKey = ''tag'', appliedValue = ''new'', appliedLabel = None\<rparr>]"
      "\<lambda>next. next"
      "[\<lparr>appliedKey = ''status'', appliedValue = ''open'', appliedLabel = None\<rparr>,
        \<lparr>appliedKey = ''tag'', appliedValue = ''new'', appliedLabel = None\<rparr>]"
      "\<lparr>appliedKey = ''status'', appliedValue = ''closed'', appliedLabel = None\<rparr>"]
  by (simp add: hostProps_simps idFromFilter_def)

text \<open>
  C2. Removing by id: when some entry has the id, there is a first one, and the
  callback receives the collection without exactly that entry, everything before and
  after it in place, also when later entries share the id. When no entry has the id,
  the callback is still called, with a collection of the same elements in the same
  order. (A collection is a value here: the copy the source makes is equal to the
  original, and that it is a copy shows only in the callback being called.)
\<close>

theorem remove_first_match:
  assumes cb: "onFiltersChange props = Some callback"
    and cur: "orEmpty (appliedFilters props) = C"
  shows "((\<exists>e\<in>set C. idFromFilter e = filterId) \<longrightarrow>
            (\<exists>pre x post. C = pre @ x # post
               \<and> (\<forall>e\<in>set pre. idFromFilter e \<noteq> filterId) \<and> idFromFilter x = filterId))
       \<and> (C = pre @ x # post
            \<and> (\<forall>e\<in>set pre. idFromFilter e \<noteq> filterId) \<and> idFromFilter x = filterId \<longrightarrow>
            handleRemoveFilter props filterId = Some (callback (pre @ post))
            \<and> remove C filterId = pre @ post)
       \<and> ((\<forall>e\<in>set C. idFromFilter e \<noteq> filterId) \<longrightarrow>
            handleRemoveFilter props filterId = Some (callback C) \<and> remove C filterId = C)"
proof (intro conjI impI)
  assume "\<exists>e\<in>set C. idFromFilter e = filterId"
  then show "\<exists>pre x post. C = pre @ x # post
       \<and> (\<forall>e\<in>set pre. idFromFilter e \<noteq> filterId) \<and> idFromFilter x = filterId"
    using first_match_split [of C "\<lambda>e. idFromFilter e = filterId"] by blast
next
  assume first: "C = pre @ x # post
    \<and> (\<forall>e\<in>set pre. idFromFilter e \<noteq> filterId) \<and> idFromFilter x = filterId"
  then have split: "C = pre @ x # post"
    and pre: "\<forall>e\<in>set pre. idFromFilter e \<noteq> filterId" and x: "idFromFilter x = filterId"
    by blast+
  show "handleRemoveFilter props filterId = Some (callback (pre @ post))"
    using cb cur pre x unfolding split by (rule handleRemoveFilter_hit)
  show "remove C filterId = pre @ post"
    unfolding split using pre x by (rule remove_hit)
next
  assume miss: "\<forall>e\<in>set C. idFromFilter e \<noteq> filterId"
  show "handleRemoveFilter props filterId = Some (callback C)"
    using handleRemoveFilter_miss [OF cb, of filterId] miss cur by simp
  show "remove C filterId = C"
    using miss by (rule remove_miss)
qed

theorem remove_first_match_witness:
  "remove [\<lparr>appliedKey = ''tag'', appliedValue = ''new'', appliedLabel = None\<rparr>,
           \<lparr>appliedKey = ''status'', appliedValue = ''open'', appliedLabel = None\<rparr>,
           \<lparr>appliedKey = ''status'', appliedValue = ''open'', appliedLabel = Some ''Open orders''\<rparr>]
          ''status-open''
   = [\<lparr>appliedKey = ''tag'', appliedValue = ''new'', appliedLabel = None\<rparr>,
      \<lparr>appliedKey = ''status'', appliedValue = ''open'', appliedLabel = Some ''Open orders''\<rparr>]
   \<and> remove [\<lparr>appliedKey = ''tag'', appliedValue = ''new'', appliedLabel = None\<rparr>,
             \<lparr>appliedKey = ''status'', appliedValue = ''open'', appliedLabel = None\<rparr>]
            ''status-closed''
   = [\<lparr>appliedKey = ''tag'', appliedValue = ''new'', appliedLabel = None\<rparr>,
      \<lparr>appliedKey = ''status'', appliedValue = ''open'', appliedLabel = None\<rparr>]"
  using
    remove_first_match [of
      "hostProps [\<lparr>appliedKey = ''tag'', appliedValue = ''new'', appliedLabel = None\<rparr>,
                  \<lparr>appliedKey = ''status'', appliedValue = ''open'', appliedLabel = None\<rparr>,
                  \<lparr>appliedKey = ''status'', appliedValue = ''open'', appliedLabel = Some ''Open orders''\<rparr>]"
      "\<lambda>next. next"
      "[\<lparr>appliedKey = ''tag'', appliedValue = ''new'', appliedLabel = None\<rparr>,
        \<lparr>appliedKey = ''status'', appliedValue = ''open'', appliedLabel = None\<rparr>,
        \<lparr>appliedKey = ''status'', appliedValue = ''open'', appliedLabel = Some ''Open orders''\<rparr>]"
      "''status-open''"
      "[\<lparr>appliedKey = ''tag'', appliedValue = ''new'', appliedLabel = None\<rparr>]"
      "\<lparr>appliedKey = ''status'', appliedValue = ''open'', appliedLabel = None\<rparr>"
      "[\<lparr>appliedKey = ''status'', appliedValue = ''open'', appliedLabel = Some ''Open orders''\<rparr>]"]
    remove_first_match [of
      "hostProps [\<lparr>appliedKey = ''tag'', appliedValue = ''new'', appliedLabel = None\<rparr>,
                  \<lparr>appliedKey = ''status'', appliedValue = ''open'', appliedLabel = None\<rparr>]"
      "\<lambda>next. next"
      "[\<lparr>appliedKey = ''tag'', appliedValue = ''new'', appliedLabel = None\<rparr>,
        \<lparr>appliedKey = ''status'', appliedValue = ''open'', appliedLabel = None\<rparr>]"
      "''status-closed''"]
  by (simp add: hostProps_simps idFromFilter_def)

text \<open>
  C3. Remove undoes add for a fresh id: when no entry of the collection has the id of
  the filter, adding the filter and then removing its id gives the collection back,
  element for element.
\<close>

theorem remove_add_fresh:
  assumes fresh: "\<forall>e\<in>set C. idFromFilter e \<noteq> idFromFilter f"
  shows "remove (add C f) (idFromFilter f) = C"
proof -
  have "add C f = C @ [f]"
    using fresh by (rule add_miss)
  moreover have "remove (C @ f # []) (idFromFilter f) = C @ []"
    using fresh by (intro remove_hit) simp_all
  ultimately show ?thesis by simp
qed

theorem remove_add_fresh_witness:
  "remove (add [\<lparr>appliedKey = ''status'', appliedValue = ''open'', appliedLabel = None\<rparr>]
               \<lparr>appliedKey = ''tag'', appliedValue = ''new'', appliedLabel = None\<rparr>)
          ''tag-new''
   = [\<lparr>appliedKey = ''status'', appliedValue = ''open'', appliedLabel = None\<rparr>]"
  using remove_add_fresh [of
      "[\<lparr>appliedKey = ''status'', appliedValue = ''open'', appliedLabel = None\<rparr>]"
      "\<lparr>appliedKey = ''tag'', appliedValue = ''new'', appliedLabel = None\<rparr>"]
  by (simp add: idFromFilter_def)

text \<open>
  C10. The composite id does not determine key and value: key \<open>a\<close> with value
  \<open>b-c\<close> and key \<open>a-b\<close> with value \<open>c\<close> differ in both and share the id
  \<open>a-b-c\<close>. So whenever the collection holds a filter with the id of the new one,
  whatever their keys and values, the new filter is dropped.
\<close>

theorem id_collision_drops:
  "(\<exists>f' g'. appliedKey f' \<noteq> appliedKey g' \<and> appliedValue f' \<noteq> appliedValue g'
        \<and> idFromFilter f' = idFromFilter g')
   \<and> (f \<in> set C \<and> idFromFilter f = idFromFilter g \<longrightarrow>
         add C g = C \<and> handleAddFilter (hostProps C) g = None)"
proof (intro conjI impI)
  let ?f = "\<lparr>appliedKey = ''a'', appliedValue = ''b-c'', appliedLabel = None\<rparr>"
  let ?g = "\<lparr>appliedKey = ''a-b'', appliedValue = ''c'', appliedLabel = None\<rparr>"
  have "appliedKey ?f \<noteq> appliedKey ?g \<and> appliedValue ?f \<noteq> appliedValue ?g
        \<and> idFromFilter ?f = idFromFilter ?g"
    by (simp add: idFromFilter_def)
  then show "\<exists>f' g'. appliedKey f' \<noteq> appliedKey g' \<and> appliedValue f' \<noteq> appliedValue g'
        \<and> idFromFilter f' = idFromFilter g'"
    by blast
next
  assume "f \<in> set C \<and> idFromFilter f = idFromFilter g"
  then have hit: "\<exists>e\<in>set C. idFromFilter e = idFromFilter g" by blast
  then show "add C g = C" by (rule add_hit)
  show "handleAddFilter (hostProps C) g = None"
    using hit by (intro handleAddFilter_hit) (simp add: hostProps_simps)
qed

theorem id_collision_drops_witness:
  "add [\<lparr>appliedKey = ''a'', appliedValue = ''b-c'', appliedLabel = None\<rparr>]
       \<lparr>appliedKey = ''a-b'', appliedValue = ''c'', appliedLabel = None\<rparr>
   = [\<lparr>appliedKey = ''a'', appliedValue = ''b-c'', appliedLabel = None\<rparr>]
   \<and> idFromFilter \<lparr>appliedKey = ''a'', appliedValue = ''b-c'', appliedLabel = None\<rparr> = ''a-b-c''
   \<and> idFromFilter \<lparr>appliedKey = ''a-b'', appliedValue = ''c'', appliedLabel = None\<rparr> = ''a-b-c''"
  using id_collision_drops [of
      "\<lparr>appliedKey = ''a'', appliedValue = ''b-c'', appliedLabel = None\<rparr>"
      "[\<lparr>appliedKey = ''a'', appliedValue = ''b-c'', appliedLabel = None\<rparr>]"
      "\<lparr>appliedKey = ''a-b'', appliedValue = ''c'', appliedLabel = None\<rparr>"]
  by (simp add: idFromFilter_def)

subsection \<open>Looking up the governing definition\<close>

lemma filterMatches_nonempty_key:
  "k \<noteq> [] \<Longrightarrow> filterMatches k d = specFilterMatches k d"
  by (cases "minKey d"; cases "maxKey d") (auto simp: filterMatches_def specFilterMatches_def)

text \<open>
  C5 as stated fails. The lookup read with "present" as "defined" is not what the
  code computes: a
  definition whose \<open>minKey\<close> is the empty string and whose \<open>maxKey\<close> is undefined
  passes neither truthiness test, so it is compared by \<open>key\<close> alone and the empty
  search key does not find it, although its \<open>minKey\<close> is present and equal to that key.
\<close>

theorem findDefinition_spec_counterexample:
  "findDefinition
     [\<lparr>key = ''created'', label = ''Created'', operatorText = None, filterType = DateSelector,
       options = [], minKey = Some [], maxKey = None\<rparr>] []
   = None
   \<and> specFindDefinition
     [\<lparr>key = ''created'', label = ''Created'', operatorText = None, filterType = DateSelector,
       options = [], minKey = Some [], maxKey = None\<rparr>] []
   = Some \<lparr>key = ''created'', label = ''Created'', operatorText = None, filterType = DateSelector,
       options = [], minKey = Some [], maxKey = None\<rparr>"
  by (simp add: findDefinition_def specFindDefinition_def filterMatches_def specFilterMatches_def)

text \<open>
  C5, amended. The lookup returns the first definition in catalog order that matches,
  and nothing when none does, which is an ordinary result. A definition matches on its
  \<open>key\<close>, \<open>minKey\<close> or \<open>maxKey\<close> when its \<open>minKey\<close> or \<open>maxKey\<close> is a non-empty
  string, and on its \<open>key\<close> alone when each of the two is undefined or empty. For a
  non-empty search key this is the lookup as the specification words it.
\<close>

theorem findDefinition_first_match:
  "(findDefinition catalog k = None \<longleftrightarrow> (\<forall>d\<in>set catalog. \<not> filterMatches k d))
   \<and> (findDefinition catalog k = Some d \<longleftrightarrow>
        (\<exists>pre post. catalog = pre @ d # post \<and> filterMatches k d
           \<and> (\<forall>e\<in>set pre. \<not> filterMatches k e)))
   \<and> (filterMatches k d \<longleftrightarrow>
        (if (\<exists>m. m \<noteq> [] \<and> (minKey d = Some m \<or> maxKey d = Some m))
         then key d = k \<or> minKey d = Some k \<or> maxKey d = Some k
         else key d = k))
   \<and> (k \<noteq> [] \<longrightarrow> findDefinition catalog k = specFindDefinition catalog k)"
proof (intro conjI impI)
  show "findDefinition catalog k = None \<longleftrightarrow> (\<forall>d\<in>set catalog. \<not> filterMatches k d)"
    by (auto simp: findDefinition_def find_None_iff)
  show "findDefinition catalog k = Some d \<longleftrightarrow>
        (\<exists>pre post. catalog = pre @ d # post \<and> filterMatches k d
           \<and> (\<forall>e\<in>set pre. \<not> filterMatches k e))"
    unfolding findDefinition_def by (rule find_Some_split)
  show "filterMatches k d \<longleftrightarrow>
        (if (\<exists>m. m \<noteq> [] \<and> (minKey d = Some m \<or> maxKey d = Some m))
         then key d = k \<or> minKey d = Some k \<or> maxKey d = Some k
         else key d = k)"
    by (cases "minKey d"; cases "maxKey d") (auto simp: filterMatches_def)
next
  assume "k \<noteq> []"
  then have "filterMatches k = specFilterMatches k"
    by (intro ext filterMatches_nonempty_key)
  then show "findDefinition catalog k = specFindDefinition catalog k"
    by (simp add: findDefinition_def specFindDefinition_def)
qed

theorem findDefinition_first_match_witness:
  "findDefinition
     [\<lparr>key = ''status'', label = ''Status'', operatorText = Some ''is'', filterType = Select,
       options = [StringOption ''open''], minKey = None, maxKey = None\<rparr>,
      \<lparr>key = ''created'', label = ''Created'', operatorText = None, filterType = DateSelector,
       options = [], minKey = Some ''since'', maxKey = Some ''until''\<rparr>,
      \<lparr>key = ''until'', label = ''Until'', operatorText = None, filterType = Other,
       options = [], minKey = None, maxKey = None\<rparr>] ''until''
   = Some \<lparr>key = ''created'', label = ''Created'', operatorText = None, filterType = DateSelector,
       options = [], minKey = Some ''since'', maxKey = Some ''until''\<rparr>
   \<and> specFindDefinition
     [\<lparr>key = ''status'', label = ''Status'', operatorText = Some ''is'', filterType = Select,
       options = [StringOption ''open''], minKey = None, maxKey = None\<rparr>,
      \<lparr>key = ''created'', label = ''Created'', operatorText = None, filterType = DateSelector,
       options = [], minKey = Some ''since'', maxKey = Some ''until''\<rparr>,
      \<lparr>key = ''until'', label = ''Until'', operatorText = None, filterType = Other,
       options = [], minKey = None, maxKey = None\<rparr>] ''until''
   = Some \<lparr>key = ''created'', label = ''Created'', operatorText = None, filterType = DateSelector,
       options = [], minKey = Some ''since'', maxKey = Some ''until''\<rparr>
   \<and> findDefinition
     [\<lparr>key = ''status'', label = ''Status'', operatorText = Some ''is'', filterType = Select,
       options = [StringOption ''open''], minKey = None, maxKey = None\<rparr>] ''vendor''
   = None"
  using
    findDefinition_first_match [of
      "[\<lparr>key = ''status'', label = ''Status'', operatorText = Some ''is'', filterType = Select,
         options = [StringOption ''open''], minKey = None, maxKey = None\<rparr>,
        \<lparr>key = ''created'', label = ''Created'', operatorText = None, filterType = DateSelector,
         options = [], minKey = Some ''since'', maxKey = Some ''until''\<rparr>,
        \<lparr>key = ''until'', label = ''Until'', operatorText = None, filterType = Other,
         options = [], minKey = None, maxKey = None\<rparr>]"
      "''until''"
      "\<lparr>key = ''created'', label = ''Created'', operatorText = None, filterType = DateSelector,
         options = [], minKey = Some ''since'', maxKey = Some ''until''\<rparr>"]
    findDefinition_first_match [of
      "[\<lparr>key = ''status'', label = ''Status'', operatorText = Some ''is'', filterType = Select,
         options = [StringOption ''open''], minKey = None, maxKey = None\<rparr>]"
      "''vendor''"]
  by (simp add: findDefinition_def specFindDefinition_def filterMatches_def specFilterMatches_def)

subsection \<open>The label of an applied filter\<close>

text \<open>
  C6. An applied filter whose \<open>label\<close> is a non-empty string is shown with that label,
  whatever the catalog, the translations, the host's dates and the filter's key and
  value are: nothing else is consulted.
\<close>

theorem label_override:
  assumes "appliedLabel appliedFilter = Some l" and "l \<noteq> []"
  shows "getFilterLabel host props appliedFilter = l"
  using assms by (simp add: getFilterLabel_def)

theorem label_override_witness:
  "getFilterLabel
     \<lparr>dateGetTime = (\<lambda>s. None), dateToLocaleDateString = (\<lambda>s. s)\<rparr>
     \<lparr>appliedFilters = None,
      filters = Some [\<lparr>key = ''status'', label = ''Status'', operatorText = Some ''is'',
                       filterType = Select, options = [StringOption ''open''],
                       minKey = None, maxKey = None\<rparr>],
      onFiltersChange = (None :: (AppliedFilter list \<Rightarrow> unit) option),
      intl = \<lparr>translate = (\<lambda>k params. k), translationKeyExists = (\<lambda>k. True)\<rparr>\<rparr>
     \<lparr>appliedKey = ''status'', appliedValue = ''open'', appliedLabel = Some ''Custom''\<rparr>
   = ''Custom''"
  using label_override [of
      "\<lparr>appliedKey = ''status'', appliedValue = ''open'', appliedLabel = Some ''Custom''\<rparr>"
      "''Custom''"]
  by simp

text \<open>
  C7. Without a label override and with a governing definition \<open>d\<close>, the label is the
  definition's label, its operator text and the type-specific label, joined by single
  spaces, all three always in place: an undefined operator text contributes the empty
  string, so two spaces stand between the definition's label and the type-specific
  label.
\<close>

theorem label_joins_three_fragments:
  assumes "\<not> truthy (appliedLabel appliedFilter)"
    and "findDefinition (orEmpty (filters props)) (appliedKey appliedFilter) = Some d"
  shows "getFilterLabel host props appliedFilter
           = label d @ '' '' @ elementString (operatorText d) @ '' ''
             @ findFilterLabelByType host props d appliedFilter
       \<and> (operatorText d = None \<longrightarrow>
            getFilterLabel host props appliedFilter
              = label d @ ''  '' @ findFilterLabelByType host props d appliedFilter)"
proof -
  have joined: "getFilterLabel host props appliedFilter
      = join [Some (label d), operatorText d,
              Some (findFilterLabelByType host props d appliedFilter)] '' ''"
    using assms by (simp add: getFilterLabel_def Let_def)
  then have first: "getFilterLabel host props appliedFilter
           = label d @ '' '' @ elementString (operatorText d) @ '' ''
             @ findFilterLabelByType host props d appliedFilter"
    by (simp only: join3 elementString.simps)
  moreover have "getFilterLabel host props appliedFilter
              = label d @ ''  '' @ findFilterLabelByType host props d appliedFilter"
    if "operatorText d = None"
    using first that by simp
  ultimately show ?thesis by blast
qed

theorem label_joins_three_fragments_witness:
  "getFilterLabel
     \<lparr>dateGetTime = (\<lambda>s. None), dateToLocaleDateString = (\<lambda>s. s)\<rparr>
     \<lparr>appliedFilters = None,
      filters = Some [\<lparr>key = ''type'', label = ''Type'', operatorText = None,
                       filterType = Select,
                       options = [StringOption ''small'', StringOption ''large''],
                       minKey = None, maxKey = None\<rparr>],
      onFiltersChange = (None :: (AppliedFilter list \<Rightarrow> unit) option),
      intl = \<lparr>translate = (\<lambda>k params. k), translationKeyExists = (\<lambda>k. False)\<rparr>\<rparr>
     \<lparr>appliedKey = ''type'', appliedValue = ''small'', appliedLabel = None\<rparr>
   = ''Type  small''"
  using label_joins_three_fragments [of
      "\<lparr>appliedKey = ''type'', appliedValue = ''small'', appliedLabel = None\<rparr>"
      "\<lparr>appliedFilters = None,
        filters = Some [\<lparr>key = ''type'', label = ''Type'', operatorText = None,
                         filterType = Select,
                         options = [StringOption ''small'', StringOption ''large''],
                         minKey = None, maxKey = None\<rparr>],
        onFiltersChange = (None :: (AppliedFilter list \<Rightarrow> unit) option),
        intl = \<lparr>translate = (\<lambda>k params. k), translationKeyExists = (\<lambda>k. False)\<rparr>\<rparr>"
      "\<lparr>key = ''type'', label = ''Type'', operatorText = None,
        filterType = Select,
        options = [StringOption ''small'', StringOption ''large''],
        minKey = None, maxKey = None\<rparr>"
      "\<lparr>dateGetTime = (\<lambda>s. None), dateToLocaleDateString = (\<lambda>s. s)\<rparr>"]
  by (simp add: findDefinition_def filterMatches_def orEmpty_def
        findFilterLabelByType_def optionMatches_def)

text \<open>
  C8. Without a label override, an applied filter whose key no definition of the
  catalog matches is shown with its raw value; the function has no failing branch.
\<close>

theorem unmatched_key_falls_back:
  assumes "\<not> truthy (appliedLabel appliedFilter)"
    and "\<forall>d\<in>set (orEmpty (filters props)). \<not> filterMatches (appliedKey appliedFilter) d"
  shows "getFilterLabel host props appliedFilter = appliedValue appliedFilter"
proof -
  have "findDefinition (orEmpty (filters props)) (appliedKey appliedFilter) = None"
    using assms(2) by (auto simp: findDefinition_def find_None_iff)
  then show ?thesis
    using assms(1) by (simp add: getFilterLabel_def)
qed

theorem unmatched_key_falls_back_witness:
  "getFilterLabel
     \<lparr>dateGetTime = (\<lambda>s. None), dateToLocaleDateString = (\<lambda>s. s)\<rparr>
     \<lparr>appliedFilters = None,
      filters = Some [\<lparr>key = ''type'', label = ''Type'', operatorText = None,
                       filterType = Select,
                       options = [StringOption ''small'', StringOption ''large''],
                       minKey = None, maxKey = None\<rparr>],
      onFiltersChange = (None :: (AppliedFilter list \<Rightarrow> unit) option),
      intl = \<lparr>translate = (\<lambda>k params. k), translationKeyExists = (\<lambda>k. False)\<rparr>\<rparr>
     \<lparr>appliedKey = ''vendor'', appliedValue = ''acme'', appliedLabel = Some []\<rparr>
   = ''acme''"
  using unmatched_key_falls_back [of
      "\<lparr>appliedKey = ''vendor'', appliedValue = ''acme'', appliedLabel = Some []\<rparr>"
      "\<lparr>appliedFilters = None,
        filters = Some [\<lparr>key = ''type'', label = ''Type'', operatorText = None,
                         filterType = Select,
                         options = [StringOption ''small'', StringOption ''large''],
                         minKey = None, maxKey = None\<rparr>],
        onFiltersChange = (None :: (AppliedFilter list \<Rightarrow> unit) option),
        intl = \<lparr>translate = (\<lambda>k params. k), translationKeyExists = (\<lambda>k. False)\<rparr>\<rparr>"
      "\<lparr>dateGetTime = (\<lambda>s. None), dateToLocaleDateString = (\<lambda>s. s)\<rparr>"]
  by (simp add: filterMatches_def orEmpty_def)

text \<open>
  C4. For a definition of type DateSelector the type-specific label is decided in a
  fixed order. First, the definition's \<open>key\<close> is the applied filter's key: the
  translation of the value's own key when it exists, the raw value otherwise, also when
  the key is \<open>minKey\<close> or \<open>maxKey\<close> as well. Otherwise the applied filter's key is
  \<open>maxKey\<close>: the "on or before" phrase with the formatted date. Otherwise it is
  \<open>minKey\<close>: the "on or after" phrase with the formatted date. Otherwise the raw
  value.
\<close>

theorem date_selector_label_priority:
  assumes "filterType d = DateSelector"
  shows "findFilterLabelByType host props d appliedFilter =
     (if key d = appliedKey appliedFilter
      then (if translationKeyExists (intl props)
                 (''Polaris.ResourceList.DateSelector.FilterLabelForValue.''
                  @ appliedValue appliedFilter)
            then translate (intl props)
                 (''Polaris.ResourceList.DateSelector.FilterLabelForValue.''
                  @ appliedValue appliedFilter) None
            else appliedValue appliedFilter)
      else if maxKey d = Some (appliedKey appliedFilter)
      then translate (intl props)
             ''Polaris.ResourceList.DateSelector.FilterLabelForValue.on_or_before''
             (Some [(''date'', formatDateForLabelDisplay host (appliedValue appliedFilter))])
      else if minKey d = Some (appliedKey appliedFilter)
      then translate (intl props)
             ''Polaris.ResourceList.DateSelector.FilterLabelForValue.on_or_after''
             (Some [(''date'', formatDateForLabelDisplay host (appliedValue appliedFilter))])
      else appliedValue appliedFilter)"
  using assms by (auto simp: findFilterLabelByType_def Let_def)

theorem date_selector_label_priority_witness:
  "findFilterLabelByType
     \<lparr>dateGetTime = (\<lambda>s. if s = ''2020-01-15'' then Some 1579046400000 else None),
     dateToLocaleDateString = (\<lambda>s. if s = ''2020/01/15'' then ''1/15/2020'' else ''Invalid Date'')\<rparr>
     \<lparr>appliedFilters = None, filters = None,
     onFiltersChange = (None :: (AppliedFilter list \<Rightarrow> unit) option),
     intl = \<lparr>translate = (\<lambda>k params. case params of None \<Rightarrow> k
                                | Some ps \<Rightarrow> k @ '' '' @ concat (map snd ps)),
              translationKeyExists = (\<lambda>k. k =
                ''Polaris.ResourceList.DateSelector.FilterLabelForValue.past_week'')\<rparr>\<rparr>
     \<lparr>key = ''created'', label = ''Created'', operatorText = None,
     filterType = DateSelector, options = [],
     minKey = Some ''edge'', maxKey = Some ''edge''\<rparr>
     \<lparr>appliedKey = ''edge'', appliedValue = ''2020-01-15'', appliedLabel = None\<rparr>
   = ''Polaris.ResourceList.DateSelector.FilterLabelForValue.on_or_before 1/15/2020''
   \<and> findFilterLabelByType
     \<lparr>dateGetTime = (\<lambda>s. if s = ''2020-01-15'' then Some 1579046400000 else None),
     dateToLocaleDateString = (\<lambda>s. if s = ''2020/01/15'' then ''1/15/2020'' else ''Invalid Date'')\<rparr>
     \<lparr>appliedFilters = None, filters = None,
     onFiltersChange = (None :: (AppliedFilter list \<Rightarrow> unit) option),
     intl = \<lparr>translate = (\<lambda>k params. case params of None \<Rightarrow> k
                                | Some ps \<Rightarrow> k @ '' '' @ concat (map snd ps)),
              translationKeyExists = (\<lambda>k. k =
                ''Polaris.ResourceList.DateSelector.FilterLabelForValue.past_week'')\<rparr>\<rparr>
     \<lparr>key = ''created'', label = ''Created'', operatorText = None,
     filterType = DateSelector, options = [],
     minKey = Some ''created'', maxKey = Some ''created''\<rparr>
     \<lparr>appliedKey = ''created'', appliedValue = ''past_week'', appliedLabel = None\<rparr>
   = ''Polaris.ResourceList.DateSelector.FilterLabelForValue.past_week''"
  using
    date_selector_label_priority [of
      "\<lparr>key = ''created'', label = ''Created'', operatorText = None,
       filterType = DateSelector, options = [],
       minKey = Some ''edge'', maxKey = Some ''edge''\<rparr>"
      "\<lparr>dateGetTime = (\<lambda>s. if s = ''2020-01-15'' then Some 1579046400000 else None),
       dateToLocaleDateString = (\<lambda>s. if s = ''2020/01/15'' then ''1/15/2020'' else ''Invalid Date'')\<rparr>"
      "\<lparr>appliedFilters = None, filters = None,
       onFiltersChange = (None :: (AppliedFilter list \<Rightarrow> unit) option),
       intl = \<lparr>translate = (\<lambda>k params. case params of None \<Rightarrow> k
                                  | Some ps \<Rightarrow> k @ '' '' @ concat (map snd ps)),
                translationKeyExists = (\<lambda>k. k =
                  ''Polaris.ResourceList.DateSelector.FilterLabelForValue.past_week'')\<rparr>\<rparr>"
      "\<lparr>appliedKey = ''edge'', appliedValue = ''2020-01-15'', appliedLabel = None\<rparr>"]
    date_selector_label_priority [of
      "\<lparr>key = ''created'', label = ''Created'', operatorText = None,
       filterType = DateSelector, options = [],
       minKey = Some ''created'', maxKey = Some ''created''\<rparr>"
      "\<lparr>dateGetTime = (\<lambda>s. if s = ''2020-01-15'' then Some 1579046400000 else None),
       dateToLocaleDateString = (\<lambda>s. if s = ''2020/01/15'' then ''1/15/2020'' else ''Invalid Date'')\<rparr>"
      "\<lparr>appliedFilters = None, filters = None,
       onFiltersChange = (None :: (AppliedFilter list \<Rightarrow> unit) option),
       intl = \<lparr>translate = (\<lambda>k params. case params of None \<Rightarrow> k
                                  | Some ps \<Rightarrow> k @ '' '' @ concat (map snd ps)),
                translationKeyExists = (\<lambda>k. k =
                  ''Polaris.ResourceList.DateSelector.FilterLabelForValue.past_week'')\<rparr>\<rparr>"
      "\<lparr>appliedKey = ''created'', appliedValue = ''past_week'', appliedLabel = None\<rparr>"]
  by (simp add: formatDateForLabelDisplay_def replaceDashes_def cong del: option.case_cong_weak)

subsection \<open>Formatting a date for display\<close>

text \<open>
  C9. A string the host does not parse as a date comes back unchanged, and the
  rendering is never asked for: the result is the same under any other rendering
  function. A string that parses comes back as the host's short date of the string
  with every dash replaced by a slash, character by character, parsed again.
\<close>

theorem format_date_passthrough:
  "(dateGetTime host raw = None \<longrightarrow>
      formatDateForLabelDisplay host raw = raw
      \<and> formatDateForLabelDisplay (host\<lparr>dateToLocaleDateString := render\<rparr>) raw = raw)
   \<and> (dateGetTime host raw \<noteq> None \<longrightarrow>
        formatDateForLabelDisplay host raw = dateToLocaleDateString host (replaceDashes raw))
   \<and> length (replaceDashes raw) = length raw
   \<and> (\<forall>i<length raw.
        replaceDashes raw ! i = (if raw ! i = CHR ''-'' then CHR ''/'' else raw ! i))"
  by (simp add: formatDateForLabelDisplay_def replaceDashes_def)

theorem format_date_passthrough_witness:
  "formatDateForLabelDisplay
     \<lparr>dateGetTime = (\<lambda>s. if s = ''2020-01-15'' then Some 1579046400000 else None),
      dateToLocaleDateString = (\<lambda>s. if s = ''2020/01/15'' then ''1/15/2020'' else ''Invalid Date'')\<rparr>
     ''not-a-date'' = ''not-a-date''
   \<and> formatDateForLabelDisplay
     \<lparr>dateGetTime = (\<lambda>s. if s = ''2020-01-15'' then Some 1579046400000 else None),
      dateToLocaleDateString = (\<lambda>s. if s = ''2020/01/15'' then ''1/15/2020'' else ''Invalid Date'')\<rparr>
     ''2020-01-15'' = ''1/15/2020''"
  using
    format_date_passthrough [of
      "\<lparr>dateGetTime = (\<lambda>s. if s = ''2020-01-15'' then Some 1579046400000 else None),
        dateToLocaleDateString = (\<lambda>s. if s = ''2020/01/15'' then ''1/15/2020'' else ''Invalid Date'')\<rparr>"
      "''not-a-date''"]
    format_date_passthrough [of
      "\<lparr>dateGetTime = (\<lambda>s. if s = ''2020-01-15'' then Some 1579046400000 else None),
        dateToLocaleDateString = (\<lambda>s. if s = ''2020/01/15'' then ''1/15/2020'' else ''Invalid Date'')\<rparr>"
      "''2020-01-15''"]
  by (simp add: replaceDashes_def)

end
